theory Spec2Isabelle
  imports Main "HOL-Library.Sublist"
begin

section \<open>The test server script \<^verbatim>\<open>test-server.py\<close>\<close>

text \<open>
  The script is one Python file: a request handler class \<^verbatim>\<open>TestServerHandler\<close>, which
  overrides three methods of the standard library's \<^verbatim>\<open>SimpleHTTPRequestHandler\<close>, and
  \<^verbatim>\<open>main\<close>, which scans ten ports for one it can listen on and then serves.

  The script's own code is embedded function by function. What it calls in the standard
  library (\<^verbatim>\<open>socketserver\<close>, \<^verbatim>\<open>http.server\<close>, \<^verbatim>\<open>os.path\<close>) is not part of the
  repository: the operating system's answers (does a bind succeed, what is in the file
  system, how does serving end) are fields of the record \<open>env\<close>, and the library methods
  that decide what is written and logged are transcribed from CPython's
  \<^verbatim>\<open>Lib/http/server.py\<close> and \<^verbatim>\<open>Lib/posixpath.py\<close>, each with the Python it stands for.
\<close>

subsection \<open>Python values\<close>

text \<open>
  The exceptions the script meets. \<open>OSError en s\<close> is an instance of \<^verbatim>\<open>OSError\<close> or of one
  of its subclasses with \<^verbatim>\<open>e.errno = en\<close> (\<open>None\<close> for Python's \<^verbatim>\<open>None\<close>) and
  \<^verbatim>\<open>str(e) = s\<close>. \<open>KeyboardInterrupt\<close> is no \<^verbatim>\<open>Exception\<close>; \<open>Exception c\<close> is an instance
  of any other class \<open>c\<close> derived from \<^verbatim>\<open>Exception\<close>.
\<close>

datatype exn =
    OSError "int option" string
  | KeyboardInterrupt
  | Exception string

text \<open>\<^verbatim>\<open>str(n)\<close> for an integer: decimal digits, a minus sign for a negative number.\<close>

fun str_nat :: "nat \<Rightarrow> string" where
  "str_nat n =
     (if n < 10 then [''0123456789'' ! n]
      else str_nat (n div 10) @ [''0123456789'' ! (n mod 10)])"

declare str_nat.simps [simp del]

definition str :: "int \<Rightarrow> string" where
  "str i = (if i < 0 then CHR ''-'' # str_nat (nat (- i)) else str_nat (nat i))"

text \<open>\<^verbatim>\<open>range(a, b)\<close>.\<close>

definition py_range :: "int \<Rightarrow> int \<Rightarrow> int list" where
  "py_range a b = [a..b - 1]"

text \<open>
  \<^verbatim>\<open>format % args\<close> for the conversions the logging calls use: \<^verbatim>\<open>%s\<close> (any argument),
  \<^verbatim>\<open>%d\<close> (an integer) and \<^verbatim>\<open>%%\<close>. Too few or too many arguments, or a string given to
  \<^verbatim>\<open>%d\<close>, raise \<^verbatim>\<open>TypeError\<close>. Any other character after \<^verbatim>\<open>%\<close> is answered with
  \<^verbatim>\<open>ValueError\<close>, which is what Python does for a character that is no conversion; the
  further conversions of Python (\<^verbatim>\<open>%r\<close>, widths, ...) are not used below.
\<close>

datatype arg = Str string | Num int

fun str_arg :: "arg \<Rightarrow> string" where
  "str_arg (Str s) = s"
| "str_arg (Num i) = str i"

fun percent :: "string \<Rightarrow> arg list \<Rightarrow> exn + string" where
  "percent [] [] = Inr []"
| "percent [] (a # as) = Inl (Exception ''TypeError'')"
| "percent (c # cs) as =
     (if c \<noteq> CHR ''%'' then map_sum id ((#) c) (percent cs as)
      else (case cs of
          [] \<Rightarrow> Inl (Exception ''ValueError'')
        | k # rest \<Rightarrow>
            if k = CHR ''%'' then map_sum id ((#) CHR ''%'') (percent rest as)
            else if k = CHR ''s'' then
              (case as of
                 [] \<Rightarrow> Inl (Exception ''TypeError'')
               | a # as' \<Rightarrow> map_sum id ((@) (str_arg a)) (percent rest as'))
            else if k = CHR ''d'' then
              (case as of
                 Num i # as' \<Rightarrow> map_sum id ((@) (str i)) (percent rest as')
               | _ \<Rightarrow> Inl (Exception ''TypeError''))
            else Inl (Exception ''ValueError'')))"

subsection \<open>\<^verbatim>\<open>os.path\<close> on POSIX\<close>

text \<open>
  \<^verbatim>\<open>
  def isabs(s):   return s.startswith('/')
  def join(a, b): if b.startswith('/'): path = b
                  elif not a or a.endswith('/'): path = a + b
                  else: path = a + '/' + b
  def dirname(p): i = p.rfind('/') + 1
                  head = p[:i]
                  if head and head != '/'*len(head): head = head.rstrip('/')
                  return head
  \<close>
\<close>

definition isabs :: "string \<Rightarrow> bool" where
  "isabs s = (take 1 s = ''/'')"

definition endswith_slash :: "string \<Rightarrow> bool" where
  "endswith_slash s = (s \<noteq> [] \<and> last s = CHR ''/'')"

definition join :: "string \<Rightarrow> string \<Rightarrow> string" where
  "join a b =
     (if isabs b then b
      else if a = [] \<or> endswith_slash a then a @ b
      else a @ ''/'' @ b)"

definition dirname :: "string \<Rightarrow> string" where
  "dirname p =
     (let head = rev (dropWhile (\<lambda>c. c \<noteq> CHR ''/'') (rev p))
      in if head \<noteq> [] \<and> (\<exists>c \<in> set head. c \<noteq> CHR ''/'')
         then rev (dropWhile (\<lambda>c. c = CHR ''/'') (rev head))
         else head)"

text \<open>\<^verbatim>\<open>s.split(c)\<close>, \<^verbatim>\<open>s.split(c, 1)[0]\<close> and \<^verbatim>\<open>s.rstrip()\<close>.\<close>

fun split_on :: "char \<Rightarrow> string \<Rightarrow> string list" where
  "split_on c [] = [[]]"
| "split_on c (x # xs) =
     (if x = c then [] # split_on c xs
      else (case split_on c xs of
              w # ws \<Rightarrow> (x # w) # ws
            | [] \<Rightarrow> [[x]]))"

definition split_first :: "char \<Rightarrow> string \<Rightarrow> string" where
  "split_first c s = takeWhile (\<lambda>x. x \<noteq> c) s"

definition is_space :: "char \<Rightarrow> bool" where
  "is_space c = (c \<in> {CHR '' '', CHR 0x09, CHR 0x0A, CHR 0x0B, CHR 0x0C, CHR 0x0D,
                         CHR 0x1C, CHR 0x1D, CHR 0x1E, CHR 0x1F, CHR 0x85, CHR 0xA0})"

definition rstrip :: "string \<Rightarrow> string" where
  "rstrip s = rev (dropWhile is_space (rev s))"

subsection \<open>What the operating system and the library tables answer\<close>

text \<open>
  A file as \<^verbatim>\<open>open(path, 'rb')\<close> and \<^verbatim>\<open>os.fstat\<close> give it: its bytes and its modification
  time, already formatted by \<^verbatim>\<open>date_time_string\<close>.
\<close>

record fileobj =
  content :: string
  last_modified :: string

text \<open>
  A request as \<^verbatim>\<open>parse_request\<close> leaves it in the handler: the request line, the three
  attributes parsed from it (\<^verbatim>\<open>request_version\<close> is \<^verbatim>\<open>'HTTP/0.9'\<close> for a request line of two
  words), the \<^verbatim>\<open>If-Modified-Since\<close> header when it counts (it is there and
  \<^verbatim>\<open>If-None-Match\<close> is not), and what the clock gives while the request is handled:
  the values of \<^verbatim>\<open>self.log_date_time_string()\<close> and \<^verbatim>\<open>self.date_time_string()\<close>.
  Request lines that \<^verbatim>\<open>parse_request\<close> rejects are not modelled.
\<close>

record request =
  requestline :: string
  command :: string
  path :: string
  request_version :: string
  if_modified_since :: "string option"
  log_date_time_string :: string
  date_time_string :: string

text \<open>
  The file system and the pure library functions the handler consults, taken as given:
  \<^verbatim>\<open>posixpath.normpath\<close>, \<^verbatim>\<open>urllib.parse.unquote\<close>, \<^verbatim>\<open>os.path.isdir\<close>, \<^verbatim>\<open>os.path.isfile\<close>,
  \<^verbatim>\<open>open(path, 'rb')\<close> (\<open>None\<close>: it raises \<^verbatim>\<open>OSError\<close>), the page \<^verbatim>\<open>list_directory\<close> renders
  (\<open>None\<close>: \<^verbatim>\<open>os.listdir\<close> raises \<^verbatim>\<open>OSError\<close>), \<^verbatim>\<open>guess_type\<close>, the table
  \<^verbatim>\<open>responses\<close> (code to short and long message), the HTML of an error page
  (\<^verbatim>\<open>error_message_format % {...}\<close>), \<^verbatim>\<open>version_string()\<close>,
  \<^verbatim>\<open>sys.getfilesystemencoding()\<close>, \<^verbatim>\<open>repr\<close> of a string, the \<^verbatim>\<open>Location\<close> a directory
  without its slash is redirected to, and the test \<^verbatim>\<open>last_modif <= ims\<close> of a file
  against an \<^verbatim>\<open>If-Modified-Since\<close> value (false when the value does not parse).
\<close>

record lib =
  normpath :: "string \<Rightarrow> string"
  unquote :: "string \<Rightarrow> string"
  isdir :: "string \<Rightarrow> bool"
  isfile :: "string \<Rightarrow> bool"
  open_rb :: "string \<Rightarrow> fileobj option"
  listdir_page :: "string \<Rightarrow> string option"
  guess_type :: "string \<Rightarrow> string"
  responses :: "int \<Rightarrow> (string \<times> string) option"
  error_page :: "int \<Rightarrow> string \<Rightarrow> string \<Rightarrow> string"
  version_string :: string
  filesystemencoding :: string
  repr :: "string \<Rightarrow> string"
  redirect_url :: "string \<Rightarrow> string"
  not_modified :: "string \<Rightarrow> fileobj \<Rightarrow> bool"

text \<open>How \<^verbatim>\<open>httpd.serve_forever()\<close> ends: it raises, it returns, or it never does.\<close>

datatype ending = Raises exn | Returns | Never

text \<open>
  The process's surroundings: \<^verbatim>\<open>__file__\<close>; what \<^verbatim>\<open>socketserver.TCPServer(("", port),
  TestServerHandler)\<close> does for each port (\<open>None\<close>: the socket is bound and listening,
  \<open>Some e\<close>: the constructor raises \<open>e\<close>); what \<^verbatim>\<open>os.chdir\<close> does for each directory;
  the requests that arrive while the server listens on a port, and how serving there ends.
\<close>

record env =
  script_file :: string
  bind_listen :: "int \<Rightarrow> exn option"
  os_chdir :: "string \<Rightarrow> exn option"
  connections :: "int \<Rightarrow> request list"
  serve_ends :: "int \<Rightarrow> ending"
  lib :: lib

text \<open>
  \<^verbatim>\<open>
  def abspath(path):
      if not isabs(path):
          cwd = os.getcwd()
          path = join(cwd, path)
      return normpath(path)
  \<close>
\<close>

definition abspath :: "lib \<Rightarrow> string \<Rightarrow> string \<Rightarrow> string" where
  "abspath l cwd p = normpath l (if \<not> isabs p then join cwd p else p)"

subsection \<open>\<^verbatim>\<open>BaseHTTPRequestHandler\<close>: the header buffer\<close>

text \<open>
  What a handler writes to its socket, one element per \<^verbatim>\<open>wfile.write\<close>: \<open>Head ls\<close> is the
  write of a header block, \<^verbatim>\<open>b"".join(ls)\<close> for the buffered lines \<open>ls\<close>; \<open>Body b\<close> is the
  write of a message body.
\<close>

datatype chunk = Head "string list" | Body string

text \<open>
  The handler's attributes, and the lines it has printed to the standard output.
  \<open>headers_buffer\<close> is \<^verbatim>\<open>self._headers_buffer\<close> (empty also where Python has not created
  it yet). The attribute \<^verbatim>\<open>close_connection\<close> is left out: with the class's
  \<^verbatim>\<open>protocol_version = "HTTP/1.0"\<close> a connection carries one request.
\<close>

record handler =
  directory :: string
  req :: request
  headers_buffer :: "string list"
  wfile :: "chunk list"
  stdout :: "string list"

definition protocol_version :: string where
  "protocol_version = ''HTTP/1.0''"

definition crlf :: string where
  "crlf = [CHR 0x0D, CHR 0x0A]"

text \<open>
  \<^verbatim>\<open>
  def send_response_only(self, code, message=None):
      if self.request_version != 'HTTP/0.9':
          if message is None:
              if code in self.responses: message = self.responses[code][0]
              else: message = ''
          self._headers_buffer.append(("%s %d %s\r\n" %
                  (self.protocol_version, code, message)).encode('latin-1', 'strict'))

  def send_header(self, keyword, value):
      if self.request_version != 'HTTP/0.9':
          self._headers_buffer.append(
              ("%s: %s\r\n" % (keyword, value)).encode('latin-1', 'strict'))

  def end_headers(self):
      if self.request_version != 'HTTP/0.9':
          self._headers_buffer.append(b"\r\n")
          self.flush_headers()

  def flush_headers(self):
      if hasattr(self, '_headers_buffer'):
          self.wfile.write(b"".join(self._headers_buffer))
          self._headers_buffer = []
  \<close>
\<close>

definition send_response_only :: "lib \<Rightarrow> int \<Rightarrow> string option \<Rightarrow> handler \<Rightarrow> handler" where
  "send_response_only l code message h =
     (if request_version (req h) \<noteq> ''HTTP/0.9'' then
        (let message = (case message of
                          Some m \<Rightarrow> m
                        | None \<Rightarrow> (case responses l code of Some sl \<Rightarrow> fst sl | None \<Rightarrow> []))
         in h\<lparr>headers_buffer := headers_buffer h @
                 [protocol_version @ '' '' @ str code @ '' '' @ message @ crlf]\<rparr>)
      else h)"

definition send_header :: "string \<Rightarrow> string \<Rightarrow> handler \<Rightarrow> handler" where
  "send_header keyword v h =
     (if request_version (req h) \<noteq> ''HTTP/0.9'' then
        h\<lparr>headers_buffer := headers_buffer h @ [keyword @ '': '' @ v @ crlf]\<rparr>
      else h)"

definition flush_headers :: "handler \<Rightarrow> handler" where
  "flush_headers h = h\<lparr>wfile := wfile h @ [Head (headers_buffer h)], headers_buffer := []\<rparr>"

definition Base_end_headers :: "handler \<Rightarrow> handler" where
  "Base_end_headers h =
     (if request_version (req h) \<noteq> ''HTTP/0.9'' then
        flush_headers (h\<lparr>headers_buffer := headers_buffer h @ [crlf]\<rparr>)
      else h)"

subsection \<open>\<^verbatim>\<open>TestServerHandler\<close>: the two overridden methods\<close>

text \<open>
  \<^verbatim>\<open>
  def end_headers(self):
      # Add CORS headers for better testing
      self.send_header('Access-Control-Allow-Origin', '*')
      self.send_header('Access-Control-Allow-Methods', 'GET, POST, OPTIONS')
      self.send_header('Access-Control-Allow-Headers', 'Content-Type')
      super().end_headers()
  \<close>
\<close>

definition end_headers :: "handler \<Rightarrow> handler" where
  "end_headers h =
     Base_end_headers
       (send_header ''Access-Control-Allow-Headers'' ''Content-Type''
         (send_header ''Access-Control-Allow-Methods'' ''GET, POST, OPTIONS''
           (send_header ''Access-Control-Allow-Origin'' ''*'' h)))"

text \<open>
  A method's result: the handler as the method leaves it, and the exception it raised,
  if any. \<open>then_do\<close> runs the next statement unless the one before raised.
\<close>

type_synonym result = "handler \<times> exn option"

definition then_do :: "result \<Rightarrow> (handler \<Rightarrow> result) \<Rightarrow> result" where
  "then_do r f = (case r of (h, None) \<Rightarrow> f h | (h, Some e) \<Rightarrow> (h, Some e))"

text \<open>
  \<^verbatim>\<open>
  def log_message(self, format, *args):
      # Custom log format
      print(f"[{self.log_date_time_string()}] {format % args}")
  \<close>
\<close>

definition log_message :: "string \<Rightarrow> arg list \<Rightarrow> handler \<Rightarrow> result" where
  "log_message format args h =
     (case percent format args of
        Inl e \<Rightarrow> (h, Some e)
      | Inr m \<Rightarrow>
          (h\<lparr>stdout := stdout h @ [''['' @ log_date_time_string (req h) @ ''] '' @ m]\<rparr>, None))"

subsection \<open>\<^verbatim>\<open>BaseHTTPRequestHandler\<close>: responses and their log lines\<close>

text \<open>
  In these library methods \<^verbatim>\<open>self.log_message\<close> and \<^verbatim>\<open>self.end_headers\<close> are the
  methods of \<^verbatim>\<open>TestServerHandler\<close> above: the handler object is an instance of the
  subclass.
  \<^verbatim>\<open>
  def log_request(self, code='-', size='-'):
      self.log_message('"%s" %s %s', self.requestline, str(code), str(size))

  def log_error(self, format, *args):
      self.log_message(format, *args)

  def send_response(self, code, message=None):
      self.log_request(code)
      self.send_response_only(code, message)
      self.send_header('Server', self.version_string())
      self.send_header('Date', self.date_time_string())
  \<close>
\<close>

definition log_request :: "int \<Rightarrow> handler \<Rightarrow> result" where
  "log_request code h =
     log_message (CHR 0x22 # ''%s'' @ CHR 0x22 # '' %s %s'')
       [Str (requestline (req h)), Str (str code), Str ''-''] h"

definition log_error :: "string \<Rightarrow> arg list \<Rightarrow> handler \<Rightarrow> result" where
  "log_error format args h = log_message format args h"

definition send_response :: "lib \<Rightarrow> int \<Rightarrow> string option \<Rightarrow> handler \<Rightarrow> result" where
  "send_response l code message h =
     then_do (log_request code h) (\<lambda>h.
       (send_header ''Date'' (date_time_string (req h))
          (send_header ''Server'' (version_string l)
             (send_response_only l code message h)), None))"

text \<open>
  \<^verbatim>\<open>
  def send_error(self, code, message=None, explain=None):
      try: shortmsg, longmsg = self.responses[code]
      except KeyError: shortmsg, longmsg = '???', '???'
      if message is None: message = shortmsg
      if explain is None: explain = longmsg
      self.log_error("code %d, message %s", code, message)
      self.send_response(code, message)
      self.send_header('Connection', 'close')
      body = None
      if (code >= 200 and
          code not in (HTTPStatus.NO_CONTENT, HTTPStatus.RESET_CONTENT, HTTPStatus.NOT_MODIFIED)):
          content = (self.error_message_format % {...})
          body = content.encode('UTF-8', 'replace')
          self.send_header("Content-Type", self.error_content_type)
          self.send_header('Content-Length', str(len(body)))
      self.end_headers()
      if self.command != 'HEAD' and body:
          self.wfile.write(body)
  \<close>
  Every call below passes no \<^verbatim>\<open>explain\<close>.
\<close>

definition write_body :: "string \<Rightarrow> handler \<Rightarrow> handler" where
  "write_body b h = (if b = [] then h else h\<lparr>wfile := wfile h @ [Body b]\<rparr>)"

definition send_error :: "lib \<Rightarrow> int \<Rightarrow> string option \<Rightarrow> handler \<Rightarrow> result" where
  "send_error l code message h =
     (let (shortmsg, longmsg) =
            (case responses l code of Some sl \<Rightarrow> sl | None \<Rightarrow> (''???'', ''???''));
          message = (case message of None \<Rightarrow> shortmsg | Some m \<Rightarrow> m);
          explain = longmsg
      in then_do (log_error ''code %d, message %s'' [Num code, Str message] h) (\<lambda>h.
         then_do (send_response l code (Some message) h) (\<lambda>h.
           (let h = send_header ''Connection'' ''close'' h;
                body = (if code \<ge> 200 \<and> code \<notin> {204, 205, 304}
                        then Some (error_page l code message explain) else None);
                h = (case body of
                       Some b \<Rightarrow>
                         send_header ''Content-Length'' (str (int (length b)))
                           (send_header ''Content-Type'' ''text/html;charset=utf-8'' h)
                     | None \<Rightarrow> h);
                h = end_headers h
            in (case body of
                  Some b \<Rightarrow> if command (req h) \<noteq> ''HEAD'' then write_body b h else h
                | None \<Rightarrow> h,
                None)))))"

subsection \<open>\<^verbatim>\<open>SimpleHTTPRequestHandler\<close>: files under \<^verbatim>\<open>self.directory\<close>\<close>

text \<open>
  \<^verbatim>\<open>
  def translate_path(self, path):
      path = path.split('?',1)[0]
      path = path.split('#',1)[0]
      trailing_slash = path.rstrip().endswith('/')
      path = urllib.parse.unquote(path)
      path = posixpath.normpath(path)
      words = path.split('/')
      words = filter(None, words)
      path = self.directory
      for word in words:
          if os.path.dirname(word) or word in (os.curdir, os.pardir):
              continue
          path = os.path.join(path, word)
      if trailing_slash:
          path += '/'
      return path
  \<close>
\<close>

definition translate_path :: "lib \<Rightarrow> string \<Rightarrow> string \<Rightarrow> string" where
  "translate_path l dir p =
     (let p = split_first CHR ''?'' p;
          p = split_first CHR ''#'' p;
          trailing_slash = endswith_slash (rstrip p);
          p = unquote l p;
          p = normpath l p;
          words = split_on CHR ''/'' p;
          words = filter (\<lambda>w. w \<noteq> []) words;
          fp = foldl (\<lambda>fp word.
                  if dirname word \<noteq> [] \<or> word = ''.'' \<or> word = ''..'' then fp
                  else join fp word) dir words
      in if trailing_slash then fp @ ''/'' else fp)"

text \<open>
  \<^verbatim>\<open>
  def list_directory(self, path):
      try: list = os.listdir(path)
      except OSError:
          self.send_error(HTTPStatus.NOT_FOUND, "No permission to list directory")
          return None
      ...                       # renders the page into f
      self.send_response(HTTPStatus.OK)
      self.send_header("Content-type", "text/html; charset=%s" % enc)
      self.send_header("Content-Length", str(len(encoded)))
      self.end_headers()
      return f
  \<close>
  The second component of the result is what the method returns: the bytes to copy to
  the client, or \<open>None\<close>.
\<close>

definition list_directory :: "lib \<Rightarrow> string \<Rightarrow> handler \<Rightarrow> result \<times> string option" where
  "list_directory l p h =
     (case listdir_page l p of
        None \<Rightarrow> (send_error l 404 (Some ''No permission to list directory'') h, None)
      | Some page \<Rightarrow>
          (then_do (send_response l 200 None h) (\<lambda>h.
             (end_headers
                (send_header ''Content-Length'' (str (int (length page)))
                   (send_header ''Content-type''
                      (''text/html; charset='' @ filesystemencoding l) h)), None)),
           Some page))"

text \<open>
  \<^verbatim>\<open>
  def send_head(self):
      path = self.translate_path(self.path)
      f = None
      if os.path.isdir(path):
          parts = urllib.parse.urlsplit(self.path)
          if not parts.path.endswith('/'):
              self.send_response(HTTPStatus.MOVED_PERMANENTLY)
              ...
              self.send_header("Location", new_url)
              self.send_header("Content-Length", "0")
              self.end_headers()
              return None
          for index in "index.html", "index.htm":
              index = os.path.join(path, index)
              if os.path.isfile(index):
                  path = index
                  break
          else:
              return self.list_directory(path)
      ctype = self.guess_type(path)
      if path.endswith("/"):
          self.send_error(HTTPStatus.NOT_FOUND, "File not found")
          return None
      try: f = open(path, 'rb')
      except OSError:
          self.send_error(HTTPStatus.NOT_FOUND, "File not found")
          return None
      fs = os.fstat(f.fileno())
      if ("If-Modified-Since" in self.headers and "If-None-Match" not in self.headers):
          ...
                  if last_modif <= ims:
                      self.send_response(HTTPStatus.NOT_MODIFIED)
                      self.end_headers()
                      f.close()
                      return None
      self.send_response(HTTPStatus.OK)
      self.send_header("Content-type", ctype)
      self.send_header("Content-Length", str(fs[6]))
      self.send_header("Last-Modified", self.date_time_string(fs.st_mtime))
      self.end_headers()
      return f
  \<close>
  \<^verbatim>\<open>urlsplit(self.path).path\<close> is the request path up to its first \<^verbatim>\<open>?\<close> or \<^verbatim>\<open>#\<close>.
\<close>

definition send_head :: "lib \<Rightarrow> handler \<Rightarrow> result \<times> string option" where
  "send_head l h =
     (let p = translate_path l (directory h) (path (req h));
          index_html = join p ''index.html'';
          index_htm = join p ''index.htm''
      in
      if isdir l p \<and>
         \<not> endswith_slash (split_first CHR ''#'' (split_first CHR ''?'' (path (req h))))
      then
        (then_do (send_response l 301 None h) (\<lambda>h.
           (end_headers
              (send_header ''Content-Length'' ''0''
                 (send_header ''Location'' (redirect_url l (path (req h))) h)), None)),
         None)
      else if isdir l p \<and> \<not> isfile l index_html \<and> \<not> isfile l index_htm
      then list_directory l p h
      else
        (let p = (if isdir l p
                  then (if isfile l index_html then index_html else index_htm)
                  else p);
             ctype = guess_type l p
         in
         if endswith_slash p then (send_error l 404 (Some ''File not found'') h, None)
         else
           (case open_rb l p of
              None \<Rightarrow> (send_error l 404 (Some ''File not found'') h, None)
            | Some f \<Rightarrow>
                if (case if_modified_since (req h) of
                      Some ims \<Rightarrow> not_modified l ims f
                    | None \<Rightarrow> False)
                then (then_do (send_response l 304 None h) (\<lambda>h. (end_headers h, None)), None)
                else
                  (then_do (send_response l 200 None h) (\<lambda>h.
                     (end_headers
                        (send_header ''Last-Modified'' (last_modified f)
                           (send_header ''Content-Length'' (str (int (length (content f))))
                              (send_header ''Content-type'' ctype h))), None)),
                   Some (content f)))))"

text \<open>
  \<^verbatim>\<open>
  def do_GET(self):
      f = self.send_head()
      if f:
          try: self.copyfile(f, self.wfile)
          finally: f.close()

  def do_HEAD(self):
      f = self.send_head()
      if f: f.close()
  \<close>
  and, of \<^verbatim>\<open>handle_one_request\<close>, what follows a successful \<^verbatim>\<open>parse_request\<close>:
  \<^verbatim>\<open>
      mname = 'do_' + self.command
      if not hasattr(self, mname):
          self.send_error(HTTPStatus.NOT_IMPLEMENTED, "Unsupported method (%r)" % self.command)
          return
      method = getattr(self, mname)
      method()
  \<close>
  The class has the two methods \<^verbatim>\<open>do_GET\<close> and \<^verbatim>\<open>do_HEAD\<close>. The writes of
  \<^verbatim>\<open>copyfile\<close> are taken together as one.
\<close>

definition do_GET :: "lib \<Rightarrow> handler \<Rightarrow> result" where
  "do_GET l h =
     (case send_head l h of
        ((h, None), Some b) \<Rightarrow> (write_body b h, None)
      | (r, _) \<Rightarrow> r)"

definition do_HEAD :: "lib \<Rightarrow> handler \<Rightarrow> result" where
  "do_HEAD l h = fst (send_head l h)"

definition handle_one_request :: "lib \<Rightarrow> handler \<Rightarrow> result" where
  "handle_one_request l h =
     (if command (req h) = ''GET'' then do_GET l h
      else if command (req h) = ''HEAD'' then do_HEAD l h
      else send_error l 501
             (Some (''Unsupported method ('' @ repr l (command (req h)) @ '')'')) h)"

subsection \<open>\<^verbatim>\<open>TestServerHandler.__init__\<close>\<close>

text \<open>
  \<^verbatim>\<open>
  def __init__(self, *args, **kwargs):
      super().__init__(*args, directory=os.path.dirname(os.path.abspath(__file__)), **kwargs)
  \<close>
  The server creates one handler per connection; the constructor of the superclass
  stores \<^verbatim>\<open>directory\<close> and handles the connection's request. \<open>cwd\<close> is the working
  directory of the process at that moment, which \<^verbatim>\<open>abspath\<close> reads.
\<close>

definition TestServerHandler :: "env \<Rightarrow> string \<Rightarrow> request \<Rightarrow> result" where
  "TestServerHandler env cwd rq =
     handle_one_request (lib env)
       \<lparr>directory = dirname (abspath (lib env) cwd (script_file env)),
        req = rq, headers_buffer = [], wfile = [], stdout = []\<rparr>"

subsection \<open>\<^verbatim>\<open>main\<close>\<close>

text \<open>
  What the process does, in order: a call of the \<^verbatim>\<open>TCPServer\<close> constructor for a port
  with its result, a line printed to the standard output, a call of \<^verbatim>\<open>os.chdir\<close> with its
  result, the entry into \<^verbatim>\<open>serve_forever\<close>, the response written for one request, and
  \<^verbatim>\<open>server_close()\<close>, which the \<^verbatim>\<open>with\<close> statement calls when its body is left.
\<close>

datatype event =
    Bind int "exn option"
  | Print string
  | Chdir string "exn option"
  | Serve int
  | Respond "chunk list"
  | Close int

text \<open>
  \<^verbatim>\<open>serve_forever\<close> handles the connections one after the other, each by a new handler
  object (\<^verbatim>\<open>finish_request\<close>). An \<^verbatim>\<open>Exception\<close> a handler raises is caught by the server
  and reported on the standard error; the loop goes on.
\<close>

fun handle_requests :: "env \<Rightarrow> string \<Rightarrow> request list \<Rightarrow> event list" where
  "handle_requests env cwd [] = []"
| "handle_requests env cwd (rq # rqs) =
     (let h = fst (TestServerHandler env cwd rq)
      in map Print (stdout h) @ [Respond (wfile h)] @ handle_requests env cwd rqs)"

definition serve_forever :: "env \<Rightarrow> string \<Rightarrow> int \<Rightarrow> event list \<times> ending" where
  "serve_forever env cwd port =
     (handle_requests env cwd (connections env port), serve_ends env port)"

text \<open>How one pass through the body of the \<^verbatim>\<open>for\<close> loop ends.\<close>

datatype control = Continue | Break | Exit int | Raise exn | Blocked

text \<open>
  \<^verbatim>\<open>
  except OSError as e:
      if e.errno == 98:  # Address already in use
          print(f"Port {port} is busy, trying {port + 1}")
          continue
      else:
          print(f"Error starting server on port {port}: {e}")
          sys.exit(1)
  \<close>
  An exception that is no \<^verbatim>\<open>OSError\<close> is not caught.
\<close>

definition except_OSError :: "int \<Rightarrow> exn \<Rightarrow> event list \<times> control" where
  "except_OSError port e =
     (case e of
        OSError errno s \<Rightarrow>
          if errno = Some 98
          then ([Print (''Port '' @ str port @ '' is busy, trying '' @ str (port + 1))], Continue)
          else ([Print (''Error starting server on port '' @ str port @ '': '' @ s)], Exit 1)
      | _ \<Rightarrow> ([], Raise e))"

text \<open>
  \<^verbatim>\<open>
  try:
      with socketserver.TCPServer(("", port), TestServerHandler) as httpd:
          print(f"Starting test server at http://localhost:{port}/")
          print(f"Test page available at: http://localhost:{port}/test-elements.html")
          print("Press Ctrl+C to stop the server")

          # Change to the script directory
          script_dir = os.path.dirname(os.path.abspath(__file__))
          os.chdir(script_dir)

          httpd.serve_forever()
  except OSError as e:
      ...
  break
  \<close>
  The \<^verbatim>\<open>try\<close> covers the whole \<^verbatim>\<open>with\<close> statement: an \<^verbatim>\<open>OSError\<close> of \<^verbatim>\<open>os.chdir\<close> or of
  \<^verbatim>\<open>serve_forever\<close> reaches the same \<^verbatim>\<open>except\<close> clause as one of the constructor, after
  the \<^verbatim>\<open>with\<close> statement has closed the server. \<open>cwd\<close> is the working directory when the
  pass begins.
\<close>

definition attempt :: "env \<Rightarrow> string \<Rightarrow> int \<Rightarrow> event list \<times> control" where
  "attempt env cwd port =
     (case bind_listen env port of
        Some e \<Rightarrow>
          (let (evs, c) = except_OSError port e in (Bind port (Some e) # evs, c))
      | None \<Rightarrow>
          (let started =
                 [Bind port None,
                  Print (''Starting test server at http://localhost:'' @ str port @ ''/''),
                  Print (''Test page available at: http://localhost:'' @ str port
                         @ ''/test-elements.html''),
                  Print ''Press Ctrl+C to stop the server''];
               script_dir = dirname (abspath (lib env) cwd (script_file env))
           in case os_chdir env script_dir of
                Some e \<Rightarrow>
                  (let (evs, c) = except_OSError port e
                   in (started @ [Chdir script_dir (Some e), Close port] @ evs, c))
              | None \<Rightarrow>
                  (case serve_forever env script_dir port of
                     (served, Raises e) \<Rightarrow>
                       (let (evs, c) = except_OSError port e
                        in (started @ [Chdir script_dir None, Serve port] @ served
                              @ [Close port] @ evs, c))
                   | (served, Returns) \<Rightarrow>
                       (started @ [Chdir script_dir None, Serve port] @ served
                          @ [Close port], Break)
                   | (served, Never) \<Rightarrow>
                       (started @ [Chdir script_dir None, Serve port] @ served, Blocked))))"

text \<open>The working directory after a sequence of events: that of the last successful \<^verbatim>\<open>os.chdir\<close>.\<close>

fun cwd_after :: "string \<Rightarrow> event list \<Rightarrow> string" where
  "cwd_after cwd [] = cwd"
| "cwd_after cwd (Chdir d None # evs) = cwd_after d evs"
| "cwd_after cwd (e # evs) = cwd_after cwd evs"

text \<open>
  How \<^verbatim>\<open>main\<close> ends: it returns, \<^verbatim>\<open>sys.exit(n)\<close> ends the process, an exception leaves
  it uncaught, or it stays in \<^verbatim>\<open>serve_forever\<close>.
  \<^verbatim>\<open>
  for port in range(PORT, PORT + 10):
      try: ...
      except OSError as e: ...
      break
  else:
      print("Could not find an available port")
      sys.exit(1)
  \<close>
\<close>

datatype outcome = Returned | SystemExit int | Uncaught exn | Serving

fun scan :: "env \<Rightarrow> string \<Rightarrow> int list \<Rightarrow> event list \<times> outcome" where
  "scan env cwd [] = ([Print ''Could not find an available port''], SystemExit 1)"
| "scan env cwd (port # ports) =
     (case attempt env cwd port of
        (evs, Continue) \<Rightarrow>
          (let (evs', out) = scan env (cwd_after cwd evs) ports in (evs @ evs', out))
      | (evs, Break) \<Rightarrow> (evs, Returned)
      | (evs, Exit n) \<Rightarrow> (evs, SystemExit n)
      | (evs, Raise e) \<Rightarrow> (evs, Uncaught e)
      | (evs, Blocked) \<Rightarrow> (evs, Serving))"

definition PORT :: int where
  "PORT = 8080"

definition main :: "env \<Rightarrow> string \<Rightarrow> event list \<times> outcome" where
  "main env cwd = scan env cwd (py_range PORT (PORT + 10))"

text \<open>
  The exit status of the process (\<^verbatim>\<open>main()\<close> is the last statement of the script): 0
  when \<^verbatim>\<open>main\<close> returns, \<open>n\<close> after \<^verbatim>\<open>sys.exit(n)\<close>. An uncaught exception ends the
  interpreter with a traceback and status 1; for an uncaught \<^verbatim>\<open>KeyboardInterrupt\<close> CPython
  (from 3.8 on, on POSIX) ends the process by the signal SIGINT instead, which a shell
  reports as 130. No status while the process is still serving.
\<close>

fun exit_status :: "outcome \<Rightarrow> int option" where
  "exit_status Returned = Some 0"
| "exit_status (SystemExit n) = Some n"
| "exit_status (Uncaught e) = Some (if e = KeyboardInterrupt then 130 else 1)"
| "exit_status Serving = None"

text \<open>The lines on the standard output, the ports tried, and the responses, in order.\<close>

fun printed :: "event list \<Rightarrow> string list" where
  "printed [] = []"
| "printed (Print s # evs) = s # printed evs"
| "printed (e # evs) = printed evs"

fun bound_ports :: "event list \<Rightarrow> int list" where
  "bound_ports [] = []"
| "bound_ports (Bind p None # evs) = p # bound_ports evs"
| "bound_ports (e # evs) = bound_ports evs"

subsection \<open>Vocabulary of the properties\<close>

text \<open>
  A port is in use when the constructor raises an \<^verbatim>\<open>OSError\<close> whose \<^verbatim>\<open>errno\<close> is 98
  (\<^verbatim>\<open>EADDRINUSE\<close> on Linux); \<open>errno_98\<close> is the same test on any exception.
\<close>

definition errno_98 :: "exn \<Rightarrow> bool" where
  "errno_98 e = (case e of OSError errno s \<Rightarrow> errno = Some 98 | _ \<Rightarrow> False)"

definition in_use :: "env \<Rightarrow> int \<Rightarrow> bool" where
  "in_use env port = (case bind_listen env port of Some e \<Rightarrow> errno_98 e | None \<Rightarrow> False)"

text \<open>The events of a pass that finds its port in use, and of the start on a free port.\<close>

definition busy :: "env \<Rightarrow> int \<Rightarrow> event list" where
  "busy env port =
     [Bind port (bind_listen env port),
      Print (''Port '' @ str port @ '' is busy, trying '' @ str (port + 1))]"

definition started :: "int \<Rightarrow> event list" where
  "started port =
     [Bind port None,
      Print (''Starting test server at http://localhost:'' @ str port @ ''/''),
      Print (''Test page available at: http://localhost:'' @ str port @ ''/test-elements.html''),
      Print ''Press Ctrl+C to stop the server'']"

text \<open>The ports of all constructor calls, and the lines that report a busy port.\<close>

fun tried :: "event list \<Rightarrow> int list" where
  "tried [] = []"
| "tried (Bind p r # evs) = p # tried evs"
| "tried (e # evs) = tried evs"

definition is_busy_line :: "string \<Rightarrow> bool" where
  "is_busy_line s = (take 5 s = ''Port '')"

text \<open>
  The two kinds of log line, the three cross-origin header lines, a status line and a
  header line as they stand in a header block.
\<close>

definition access_line :: "request \<Rightarrow> int \<Rightarrow> string" where
  "access_line rq code =
     ''['' @ log_date_time_string rq @ ''] '' @
     CHR 0x22 # requestline rq @ CHR 0x22 # '' '' @ str code @ '' -''"

definition error_line :: "request \<Rightarrow> int \<Rightarrow> string \<Rightarrow> string" where
  "error_line rq code m =
     ''['' @ log_date_time_string rq @ ''] code '' @ str code @ '', message '' @ m"

fun logged :: "request \<Rightarrow> int \<Rightarrow> string option \<Rightarrow> string list" where
  "logged rq code None = [access_line rq code]"
| "logged rq code (Some m) = [error_line rq code m, access_line rq code]"

definition cors_headers :: "string list" where
  "cors_headers =
     [''Access-Control-Allow-Origin: *'' @ crlf,
      ''Access-Control-Allow-Methods: GET, POST, OPTIONS'' @ crlf,
      ''Access-Control-Allow-Headers: Content-Type'' @ crlf]"

definition is_cors_line :: "string \<Rightarrow> bool" where
  "is_cors_line s = (take 15 s = ''Access-Control-'')"

definition status_line :: "int \<Rightarrow> string \<Rightarrow> string" where
  "status_line code m = ''HTTP/1.0 '' @ str code @ '' '' @ m @ crlf"

definition header :: "string \<Rightarrow> string \<Rightarrow> string" where
  "header k v = k @ '': '' @ v @ crlf"


definition long_message :: "lib \<Rightarrow> int \<Rightarrow> string" where
  "long_message l code = (case responses l code of Some sl \<Rightarrow> snd sl | None \<Rightarrow> ''???'')"

text \<open>
  A response carries the cross-origin headers when it starts with one header block, the
  cross-origin lines of that block are exactly the three, and only a body follows.
\<close>

fun is_Body :: "chunk \<Rightarrow> bool" where
  "is_Body (Body b) = True"
| "is_Body (Head ls) = False"


text \<open>The header block and the body of the error response \<^verbatim>\<open>send_error(code, m)\<close>.\<close>

definition error_head :: "lib \<Rightarrow> request \<Rightarrow> int \<Rightarrow> string \<Rightarrow> string list" where
  "error_head l rq code m =
     [status_line code m, header ''Server'' (version_string l),
      header ''Date'' (date_time_string rq), header ''Connection'' ''close''] @
     (if code \<ge> 200 \<and> code \<notin> {204, 205, 304}
      then [header ''Content-Type'' ''text/html;charset=utf-8'',
            header ''Content-Length''
              (str (int (length (error_page l code m (long_message l code)))))]
      else []) @
     cors_headers @ [crlf]"

definition error_body :: "lib \<Rightarrow> request \<Rightarrow> int \<Rightarrow> string \<Rightarrow> chunk list" where
  "error_body l rq code m =
     (if code \<ge> 200 \<and> code \<notin> {204, 205, 304} \<and> command rq \<noteq> ''HEAD''
         \<and> error_page l code m (long_message l code) \<noteq> []
      then [Body (error_page l code m (long_message l code))] else [])"

definition v1 :: "handler \<Rightarrow> bool" where
  "v1 h = (request_version (req h) \<noteq> ''HTTP/0.9'')"

subsection \<open>A concrete installation\<close>

text \<open>
  The script installed as \<^verbatim>\<open>/srv/tests/test-server.py\<close>, beside the page
  \<^verbatim>\<open>test-elements.html\<close> and a directory \<^verbatim>\<open>docs\<close>.
\<close>

definition lib0 :: lib where
  "lib0 =
     \<lparr>normpath = (\<lambda>p. p),
      unquote = (\<lambda>p. p),
      isdir = (\<lambda>p. p = ''/srv/tests'' \<or> p = ''/srv/tests/'' \<or> p = ''/srv/tests/docs''),
      isfile = (\<lambda>p. p = ''/srv/tests/test-elements.html''),
      open_rb = (\<lambda>p. if p = ''/srv/tests/test-elements.html''
                      then Some \<lparr>content = ''<html></html>'',
                                 last_modified = ''Mon, 01 Jan 2024 00:00:00 GMT''\<rparr>
                      else None),
      listdir_page = (\<lambda>p. Some ''<ul></ul>''),
      guess_type = (\<lambda>p. ''text/html''),
      responses = (\<lambda>c. if c = 200 then Some (''OK'', ''Request fulfilled, document follows'')
                        else if c = 301 then Some (''Moved Permanently'',
                                                   ''Object moved permanently -- see URI list'')
                        else if c = 404 then Some (''Not Found'', ''Nothing matches the given URI'')
                        else None),
      error_page = (\<lambda>c m e. ''<html>error</html>''),
      version_string = ''SimpleHTTP/0.6 Python/3.11.10'',
      filesystemencoding = ''utf-8'',
      repr = (\<lambda>s. CHR 0x27 # s @ [CHR 0x27]),
      redirect_url = (\<lambda>p. p @ ''/''),
      not_modified = (\<lambda>ims f. False)\<rparr>"

definition get :: "string \<Rightarrow> string \<Rightarrow> request" where
  "get p v =
     \<lparr>requestline = ''GET '' @ p @ (if v = ''HTTP/0.9'' then [] else '' '' @ v),
      command = ''GET'', path = p, request_version = v, if_modified_since = None,
      log_date_time_string = ''04/Nov/2026 12:00:00'',
      date_time_string = ''Wed, 04 Nov 2026 12:00:00 GMT''\<rparr>"

text \<open>
  The installation with the ports below \<open>free\<close> in use, the port \<open>free\<close> answering
  with \<open>r\<close> and every later port free; three requests arrive, then Ctrl-C.
\<close>

definition installation :: "int \<Rightarrow> exn option \<Rightarrow> env" where
  "installation free r =
     \<lparr>script_file = ''/srv/tests/test-server.py'',
      bind_listen = (\<lambda>p. if p < free
                          then Some (OSError (Some 98) ''[Errno 98] Address already in use'')
                          else if p = free then r else None),
      os_chdir = (\<lambda>d. None),
      connections = (\<lambda>p. [get ''/test-elements.html'' ''HTTP/1.1'', get ''/nope'' ''HTTP/1.1'',
                           get ''/docs'' ''HTTP/1.1'']),
      serve_ends = (\<lambda>p. Raises KeyboardInterrupt),
      lib = lib0\<rparr>"

text \<open>
  The value of \<^verbatim>\<open>os.path.dirname(os.path.abspath(__file__))\<close> when the working directory is
  \<open>cwd\<close>: the expression of \<^verbatim>\<open>TestServerHandler.__init__\<close> and of \<^verbatim>\<open>main\<close>.
\<close>

definition script_dir :: "env \<Rightarrow> string \<Rightarrow> string" where
  "script_dir env cwd = dirname (abspath (lib env) cwd (script_file env))"

section \<open>The port scan\<close>

lemma py_range_10:
  "py_range P (P + 10) = [P, P + 1, P + 2, P + 3, P + 4, P + 5, P + 6, P + 7, P + 8, P + 9]"
  by (simp add: py_range_def upto_rec1)

lemma in_use_iff: "in_use env p \<longleftrightarrow> (\<exists>s. bind_listen env p = Some (OSError (Some 98) s))"
  by (auto simp: in_use_def errno_98_def split: option.splits exn.splits)

lemma attempt_in_use: "in_use env p \<Longrightarrow> attempt env cwd p = (busy env p, Continue)"
  by (auto simp: in_use_iff attempt_def except_OSError_def busy_def)

lemma cwd_after_busy: "cwd_after cwd (busy env p) = cwd"
  by (simp add: busy_def)

text \<open>Ports in use are passed over one by one; the scan goes on with the ports that follow.\<close>

lemma scan_skips:
  "\<forall>q \<in> set pre. in_use env q \<Longrightarrow>
   scan env cwd (pre @ ports) =
     (concat (map (busy env) pre) @ fst (scan env cwd ports), snd (scan env cwd ports))"
  by (induction pre) (simp_all add: attempt_in_use cwd_after_busy split: prod.splits)

lemma scan_Cons_events: "\<exists>more. fst (scan env cwd (p # ports)) = fst (attempt env cwd p) @ more"
  by (cases "attempt env cwd p") (auto split: control.splits prod.splits)

lemma scan_Cons_stops:
  "snd (attempt env cwd p) \<noteq> Continue \<Longrightarrow>
   fst (scan env cwd (p # ports)) = fst (attempt env cwd p)"
  by (cases "attempt env cwd p") (auto split: control.splits prod.splits)

lemma attempt_free:
  assumes "bind_listen env p = None"
  shows "\<exists>rest. fst (attempt env cwd p) =
           started p @ Chdir (dirname (abspath (lib env) cwd (script_file env)))
             (os_chdir env (dirname (abspath (lib env) cwd (script_file env)))) # rest \<and>
           (os_chdir env (dirname (abspath (lib env) cwd (script_file env))) = None \<longrightarrow>
              (\<exists>rest'. rest = Serve p # rest'))"
  using assms
  by (auto simp: attempt_def started_def Let_def split: option.splits prod.splits ending.splits)

lemma str_8080: "str 8080 = ''8080''"
  by (simp add: str_def str_nat.simps)

text \<open>
  Claim C1. When the preferred port \<open>P\<close> is free, the first constructor call is the one
  for \<open>P\<close> and it succeeds; the next events are the three lines of the banner, which
  name the port \<open>P\<close> and the URL \<^verbatim>\<open>http://localhost:P/test-elements.html\<close> of the test page,
  and the call of \<^verbatim>\<open>os.chdir\<close>. Serving on \<open>P\<close> begins only after them: it is the next
  event when \<^verbatim>\<open>os.chdir\<close> succeeds. \<^verbatim>\<open>main\<close> is the scan for \<open>P = 8080\<close>.
\<close>

theorem C1_free_port_first_attempt:
  assumes "bind_listen env P = None"
  shows "take 5 (fst (scan env cwd (py_range P (P + 10)))) =
           [Bind P None,
            Print (''Starting test server at http://localhost:'' @ str P @ ''/''),
            Print (''Test page available at: http://localhost:'' @ str P @ ''/test-elements.html''),
            Print ''Press Ctrl+C to stop the server'',
            Chdir (dirname (abspath (lib env) cwd (script_file env)))
              (os_chdir env (dirname (abspath (lib env) cwd (script_file env))))] \<and>
         (os_chdir env (dirname (abspath (lib env) cwd (script_file env))) = None \<longrightarrow>
            fst (scan env cwd (py_range P (P + 10))) ! 5 = Serve P)"
proof -
  let ?d = "dirname (abspath (lib env) cwd (script_file env))"
  obtain ports where r: "py_range P (P + 10) = P # ports"
    by (simp add: py_range_10)
  obtain more where m: "fst (scan env cwd (P # ports)) = fst (attempt env cwd P) @ more"
    using scan_Cons_events by blast
  obtain rest where a: "fst (attempt env cwd P) = started P @ Chdir ?d (os_chdir env ?d) # rest"
    and s: "os_chdir env ?d = None \<longrightarrow> (\<exists>rest'. rest = Serve P # rest')"
    using attempt_free [OF assms] by blast
  have e: "fst (scan env cwd (py_range P (P + 10))) =
             started P @ Chdir ?d (os_chdir env ?d) # rest @ more"
    unfolding r m a by simp
  show ?thesis
    unfolding e using s by (auto simp: started_def)
qed

theorem C1_witness:
  "bind_listen (installation 8080 None) 8080 = None \<and>
   take 5 (fst (main (installation 8080 None) ''/home/user'')) =
     [Bind 8080 None,
      Print ''Starting test server at http://localhost:8080/'',
      Print ''Test page available at: http://localhost:8080/test-elements.html'',
      Print ''Press Ctrl+C to stop the server'',
      Chdir ''/srv/tests'' None] \<and>
   fst (main (installation 8080 None) ''/home/user'') ! 5 = Serve 8080"
proof -
  have b: "bind_listen (installation 8080 None) 8080 = None"
    by (simp add: installation_def)
  have d: "dirname (abspath (lib (installation 8080 None)) ''/home/user''
             (script_file (installation 8080 None))) = ''/srv/tests''"
    by (simp add: installation_def lib0_def abspath_def isabs_def dirname_def)
  have c: "os_chdir (installation 8080 None) ''/srv/tests'' = None"
    by (simp add: installation_def)
  show ?thesis
    using C1_free_port_first_attempt [OF b, of "''/home/user''"] b
    unfolding d c str_8080 main_def PORT_def by simp
qed


lemma bound_ports_append: "bound_ports (xs @ ys) = bound_ports xs @ bound_ports ys"
  by (induction xs rule: bound_ports.induct) simp_all

lemma tried_append: "tried (xs @ ys) = tried xs @ tried ys"
  by (induction xs rule: tried.induct) simp_all

lemma printed_append: "printed (xs @ ys) = printed xs @ printed ys"
  by (induction xs rule: printed.induct) simp_all

lemma bound_ports_busy: "in_use env p \<Longrightarrow> bound_ports (busy env p) = []"
  by (auto simp: in_use_iff busy_def)

lemma bound_ports_skipped:
  "\<forall>q \<in> set pre. in_use env q \<Longrightarrow> bound_ports (concat (map (busy env) pre)) = []"
  by (induction pre) (simp_all add: bound_ports_append bound_ports_busy)

text \<open>
  Claim C4. When all ten candidate ports 8080 to 8089 are in use, \<^verbatim>\<open>main\<close> tries each once,
  in order, printing the line for a busy port after each; no constructor call succeeds;
  the last line printed is \<^verbatim>\<open>Could not find an available port\<close>, and the process ends
  by \<^verbatim>\<open>sys.exit(1)\<close>, with exit status 1.
\<close>

theorem C4_all_ports_busy:
  assumes "\<forall>p \<in> {8080..8089}. in_use env p"
  shows "main env cwd =
           (concat (map (busy env) [8080..8089]) @ [Print ''Could not find an available port''],
            SystemExit 1) \<and>
         bound_ports (fst (main env cwd)) = [] \<and>
         exit_status (snd (main env cwd)) = Some 1"
proof -
  have r: "py_range PORT (PORT + 10) = [8080..8089]"
    by (simp add: py_range_def PORT_def)
  have a: "\<forall>q \<in> set [8080..8089]. in_use env q"
    using assms by simp
  have m: "main env cwd =
             (concat (map (busy env) [8080..8089]) @ [Print ''Could not find an available port''],
              SystemExit 1)"
    using scan_skips [OF a, of cwd "[]"] by (simp add: main_def r)
  show ?thesis
    unfolding m using bound_ports_skipped [OF a] by (simp add: bound_ports_append)
qed

theorem C4_witness:
  "main (installation 8090 None) ''/home/user'' =
     ([Bind 8080 (Some (OSError (Some 98) ''[Errno 98] Address already in use'')),
       Print ''Port 8080 is busy, trying 8081'',
       Bind 8081 (Some (OSError (Some 98) ''[Errno 98] Address already in use'')),
       Print ''Port 8081 is busy, trying 8082'',
       Bind 8082 (Some (OSError (Some 98) ''[Errno 98] Address already in use'')),
       Print ''Port 8082 is busy, trying 8083'',
       Bind 8083 (Some (OSError (Some 98) ''[Errno 98] Address already in use'')),
       Print ''Port 8083 is busy, trying 8084'',
       Bind 8084 (Some (OSError (Some 98) ''[Errno 98] Address already in use'')),
       Print ''Port 8084 is busy, trying 8085'',
       Bind 8085 (Some (OSError (Some 98) ''[Errno 98] Address already in use'')),
       Print ''Port 8085 is busy, trying 8086'',
       Bind 8086 (Some (OSError (Some 98) ''[Errno 98] Address already in use'')),
       Print ''Port 8086 is busy, trying 8087'',
       Bind 8087 (Some (OSError (Some 98) ''[Errno 98] Address already in use'')),
       Print ''Port 8087 is busy, trying 8088'',
       Bind 8088 (Some (OSError (Some 98) ''[Errno 98] Address already in use'')),
       Print ''Port 8088 is busy, trying 8089'',
       Bind 8089 (Some (OSError (Some 98) ''[Errno 98] Address already in use'')),
       Print ''Port 8089 is busy, trying 8090'',
       Print ''Could not find an available port''],
      SystemExit 1) \<and>
   bound_ports (fst (main (installation 8090 None) ''/home/user'')) = [] \<and>
   exit_status (snd (main (installation 8090 None) ''/home/user'')) = Some 1"
proof -
  have a: "\<forall>p \<in> {8080..8089}. in_use (installation 8090 None) p"
    by (simp add: in_use_def errno_98_def installation_def)
  have l: "[8080..8089] = [8080, 8081, 8082, 8083, 8084, 8085, 8086, 8087, 8088, 8089::int]"
    by (simp add: upto_rec1)
  show ?thesis
    using C4_all_ports_busy [OF a, of "''/home/user''"]
    by (simp add: l busy_def installation_def str_def str_nat.simps)
qed


lemma attempt_OSError:
  "bind_listen env p = Some (OSError errno s) \<Longrightarrow> errno \<noteq> Some 98 \<Longrightarrow>
   attempt env cwd p =
     ([Bind p (Some (OSError errno s)),
       Print (''Error starting server on port '' @ str p @ '': '' @ s)], Exit 1)"
  by (simp add: attempt_def except_OSError_def)

lemma range_8080: "py_range PORT (PORT + 10) =
    [8080, 8081, 8082, 8083, 8084, 8085, 8086, 8087, 8088, 8089]"
  by (simp add: py_range_def PORT_def upto_rec1)

lemma str_8081: "str 8081 = ''8081''"
  by (simp add: str_def str_nat.simps)

lemma str_8082: "str 8082 = ''8082''"
  by (simp add: str_def str_nat.simps)

lemma str_8083: "str 8083 = ''8083''"
  by (simp add: str_def str_nat.simps)

text \<open>
  Claim C5. When the constructor raises an \<^verbatim>\<open>OSError\<close> whose \<^verbatim>\<open>errno\<close> is not 98 for a port
  \<open>p\<close> (the ports before \<open>p\<close> having been found in use), the scan prints
  \<^verbatim>\<open>Error starting server on port p: \<close> followed by the error, and the process ends at
  once by \<^verbatim>\<open>sys.exit(1)\<close>, with exit status 1: the events end with that line, so that none
  of the ports after \<open>p\<close> is tried.
\<close>

theorem C5_other_bind_failure_is_fatal:
  assumes "\<forall>q \<in> set pre. in_use env q"
    and "bind_listen env p = Some (OSError errno s)"
    and "errno \<noteq> Some 98"
  shows "scan env cwd (pre @ p # rest) =
           (concat (map (busy env) pre) @
            [Bind p (Some (OSError errno s)),
             Print (''Error starting server on port '' @ str p @ '': '' @ s)],
            SystemExit 1) \<and>
         exit_status (snd (scan env cwd (pre @ p # rest))) = Some 1 \<and>
         tried (fst (scan env cwd (pre @ p # rest))) = pre @ [p]"
proof -
  have t: "tried (concat (map (busy env) pre)) = pre"
    by (induction pre) (simp_all add: busy_def)
  have "scan env cwd (p # rest) =
          ([Bind p (Some (OSError errno s)),
            Print (''Error starting server on port '' @ str p @ '': '' @ s)], SystemExit 1)"
    by (simp add: attempt_OSError [OF assms(2,3)])
  then have "scan env cwd (pre @ p # rest) =
           (concat (map (busy env) pre) @
            [Bind p (Some (OSError errno s)),
             Print (''Error starting server on port '' @ str p @ '': '' @ s)],
            SystemExit 1)"
    using scan_skips [OF assms(1), of cwd "p # rest"] by simp
  then show ?thesis
    by (simp add: tried_append t)
qed

theorem C5_witness:
  "in_use (installation 8081 (Some (OSError (Some 13) ''[Errno 13] Permission denied''))) 8080 \<and>
   main (installation 8081 (Some (OSError (Some 13) ''[Errno 13] Permission denied'')))
       ''/home/user'' =
     ([Bind 8080 (Some (OSError (Some 98) ''[Errno 98] Address already in use'')),
       Print ''Port 8080 is busy, trying 8081'',
       Bind 8081 (Some (OSError (Some 13) ''[Errno 13] Permission denied'')),
       Print ''Error starting server on port 8081: [Errno 13] Permission denied''],
      SystemExit 1) \<and>
   exit_status (snd (main (installation 8081
       (Some (OSError (Some 13) ''[Errno 13] Permission denied''))) ''/home/user'')) = Some 1 \<and>
   tried (fst (main (installation 8081
       (Some (OSError (Some 13) ''[Errno 13] Permission denied''))) ''/home/user'')) = [8080, 8081]"
proof -
  let ?env = "installation 8081 (Some (OSError (Some 13) ''[Errno 13] Permission denied''))"
  have a: "\<forall>q \<in> set [8080]. in_use ?env q"
    by (simp add: in_use_def errno_98_def installation_def)
  have b: "bind_listen ?env 8081 = Some (OSError (Some 13) ''[Errno 13] Permission denied'')"
    by (simp add: installation_def)
  have c: "Some (13::int) \<noteq> Some 98"
    by simp
  have m: "main ?env ''/home/user'' =
      scan ?env ''/home/user'' ([8080] @ 8081 # [8082, 8083, 8084, 8085, 8086, 8087, 8088, 8089])"
    by (simp add: main_def range_8080)
  have e: "busy ?env 8080 =
      [Bind 8080 (Some (OSError (Some 98) ''[Errno 98] Address already in use'')),
       Print ''Port 8080 is busy, trying 8081'']"
    by (simp add: busy_def installation_def str_8080 str_8081)
  show ?thesis
    using C5_other_bind_failure_is_fatal [OF a b c, of "''/home/user''"
        "[8082, 8083, 8084, 8085, 8086, 8087, 8088, 8089]"] a
    unfolding m [symmetric] by (simp add: e str_8081)
qed

text \<open>
  Claim C9. A pass whose constructor raises an \<^verbatim>\<open>OSError\<close> goes on to the next port
  exactly when \<^verbatim>\<open>e.errno\<close> is the number 98. With any other \<^verbatim>\<open>errno\<close> (48 and 10048, which
  mean "address in use" on macOS and on Windows, or none at all) the pass prints the
  error and ends the process by \<^verbatim>\<open>sys.exit(1)\<close>; no further port is tried.
\<close>

theorem C9_in_use_iff_errno_98:
  assumes "bind_listen env p = Some (OSError errno s)"
  shows "snd (attempt env cwd p) = (if errno = Some 98 then Continue else Exit 1) \<and>
         (errno = Some 98 \<longrightarrow>
            scan env cwd (p # rest) =
              (busy env p @ fst (scan env cwd rest), snd (scan env cwd rest))) \<and>
         (errno \<noteq> Some 98 \<longrightarrow>
            scan env cwd (p # rest) =
              ([Bind p (Some (OSError errno s)),
                Print (''Error starting server on port '' @ str p @ '': '' @ s)],
               SystemExit 1) \<and>
            exit_status (snd (scan env cwd (p # rest))) = Some 1)"
proof (cases "errno = Some 98")
  case True
  then have "in_use env p"
    using assms by (simp add: in_use_iff)
  then show ?thesis
    using True by (simp add: attempt_in_use cwd_after_busy split: prod.splits)
next
  case False
  then show ?thesis
    by (simp add: attempt_OSError [OF assms False])
qed

theorem C9_witness:
  "bind_listen (installation 8080 (Some (OSError (Some 48) ''[Errno 48] Address already in use'')))
      8080 = Some (OSError (Some 48) ''[Errno 48] Address already in use'') \<and>
   snd (attempt (installation 8080 (Some (OSError (Some 48) ''[Errno 48] Address already in use'')))
      ''/home/user'' 8080) = Exit 1 \<and>
   main (installation 8080 (Some (OSError (Some 48) ''[Errno 48] Address already in use'')))
      ''/home/user'' =
     ([Bind 8080 (Some (OSError (Some 48) ''[Errno 48] Address already in use'')),
       Print ''Error starting server on port 8080: [Errno 48] Address already in use''],
      SystemExit 1) \<and>
   exit_status (snd (main (installation 8080
      (Some (OSError (Some 48) ''[Errno 48] Address already in use''))) ''/home/user'')) = Some 1"
proof -
  let ?env = "installation 8080 (Some (OSError (Some 48) ''[Errno 48] Address already in use''))"
  have b: "bind_listen ?env 8080 = Some (OSError (Some 48) ''[Errno 48] Address already in use'')"
    by (simp add: installation_def)
  have m: "main ?env ''/home/user'' =
      scan ?env ''/home/user'' (8080 # [8081, 8082, 8083, 8084, 8085, 8086, 8087, 8088, 8089])"
    by (simp add: main_def range_8080)
  show ?thesis
    using C9_in_use_iff_errno_98 [OF b, of "''/home/user''"
        "[8081, 8082, 8083, 8084, 8085, 8086, 8087, 8088, 8089]"] b
    unfolding m [symmetric] by (simp add: str_8080)
qed


lemma attempt_served:
  assumes "bind_listen env p = None"
    and "os_chdir env (dirname (abspath (lib env) cwd (script_file env))) = None"
  shows "attempt env cwd p =
    (case serve_ends env p of
       Raises e \<Rightarrow>
         (started p @ [Chdir (dirname (abspath (lib env) cwd (script_file env))) None, Serve p] @
          handle_requests env (dirname (abspath (lib env) cwd (script_file env)))
            (connections env p) @ [Close p] @ fst (except_OSError p e),
          snd (except_OSError p e))
     | Returns \<Rightarrow>
         (started p @ [Chdir (dirname (abspath (lib env) cwd (script_file env))) None, Serve p] @
          handle_requests env (dirname (abspath (lib env) cwd (script_file env)))
            (connections env p) @ [Close p], Break)
     | Never \<Rightarrow>
         (started p @ [Chdir (dirname (abspath (lib env) cwd (script_file env))) None, Serve p] @
          handle_requests env (dirname (abspath (lib env) cwd (script_file env)))
            (connections env p), Blocked))"
  using assms
  by (simp add: attempt_def started_def serve_forever_def Let_def
      split: ending.splits prod.splits)

lemma scan_interrupted:
  assumes "\<forall>q \<in> set pre. in_use env q"
    and "bind_listen env p = None"
    and "os_chdir env (dirname (abspath (lib env) cwd (script_file env))) = None"
    and "serve_ends env p = Raises KeyboardInterrupt"
  shows "scan env cwd (pre @ p # rest) =
           (concat (map (busy env) pre) @ started p @
            [Chdir (dirname (abspath (lib env) cwd (script_file env))) None, Serve p] @
            handle_requests env (dirname (abspath (lib env) cwd (script_file env)))
              (connections env p) @ [Close p],
            Uncaught KeyboardInterrupt)"
proof -
  have "scan env cwd (p # rest) =
          (started p @
           [Chdir (dirname (abspath (lib env) cwd (script_file env))) None, Serve p] @
           handle_requests env (dirname (abspath (lib env) cwd (script_file env)))
             (connections env p) @ [Close p],
           Uncaught KeyboardInterrupt)"
    by (simp add: attempt_served [OF assms(2,3)] assms(4) except_OSError_def)
  then show ?thesis
    using scan_skips [OF assms(1), of cwd "p # rest"] by simp
qed

text \<open>
  Claim C6, as the code has it. When \<^verbatim>\<open>serve_forever\<close> is interrupted by
  \<^verbatim>\<open>KeyboardInterrupt\<close> (Ctrl-C), the \<^verbatim>\<open>with\<close> statement closes the listening socket and the
  exception leaves \<^verbatim>\<open>main\<close>: no \<^verbatim>\<open>except\<close> clause of the script catches it (the only one
  catches \<^verbatim>\<open>OSError\<close>). The serve loop is unwound and the process ends, but by an uncaught
  exception, and so with an exit status that is not 0.
\<close>

theorem C6_interrupt_unwinds_uncaught:
  assumes "\<forall>q \<in> set pre. in_use env q"
    and "bind_listen env p = None"
    and "os_chdir env (dirname (abspath (lib env) cwd (script_file env))) = None"
    and "serve_ends env p = Raises KeyboardInterrupt"
  shows "scan env cwd (pre @ p # rest) =
           (concat (map (busy env) pre) @ started p @
            [Chdir (dirname (abspath (lib env) cwd (script_file env))) None, Serve p] @
            handle_requests env (dirname (abspath (lib env) cwd (script_file env)))
              (connections env p) @ [Close p],
            Uncaught KeyboardInterrupt) \<and>
         exit_status (snd (scan env cwd (pre @ p # rest))) \<noteq> Some 0"
  by (simp add: scan_interrupted [OF assms])


lemma installation_dir:
  "dirname (abspath (lib (installation free r)) cwd (script_file (installation free r))) =
     ''/srv/tests''"
  by (simp add: installation_def lib0_def abspath_def isabs_def dirname_def)

theorem C6_witness:
  "in_use (installation 8082 None) 8080 \<and> in_use (installation 8082 None) 8081 \<and>
   bind_listen (installation 8082 None) 8082 = None \<and>
   os_chdir (installation 8082 None) ''/srv/tests'' = None \<and>
   serve_ends (installation 8082 None) 8082 = Raises KeyboardInterrupt \<and>
   main (installation 8082 None) ''/home/user'' =
     (busy (installation 8082 None) 8080 @ busy (installation 8082 None) 8081 @ started 8082 @
      [Chdir ''/srv/tests'' None, Serve 8082] @
      handle_requests (installation 8082 None) ''/srv/tests''
        (connections (installation 8082 None) 8082) @ [Close 8082],
      Uncaught KeyboardInterrupt) \<and>
   exit_status (snd (main (installation 8082 None) ''/home/user'')) = Some 130"
proof -
  let ?env = "installation 8082 None"
  have a: "\<forall>q \<in> set [8080, 8081]. in_use ?env q"
    by (simp add: in_use_def errno_98_def installation_def)
  have b: "bind_listen ?env 8082 = None"
    by (simp add: installation_def)
  have c: "os_chdir ?env (dirname (abspath (lib ?env) ''/home/user'' (script_file ?env))) = None"
    by (simp add: installation_def)
  have c': "os_chdir ?env ''/srv/tests'' = None"
    by (simp add: installation_def)
  have e: "serve_ends ?env 8082 = Raises KeyboardInterrupt"
    by (simp add: installation_def)
  have m: "main ?env ''/home/user'' =
      scan ?env ''/home/user'' ([8080, 8081] @ 8082 # [8083, 8084, 8085, 8086, 8087, 8088, 8089])"
    by (simp add: main_def range_8080)
  have t: "main ?env ''/home/user'' =
     (busy ?env 8080 @ busy ?env 8081 @ started 8082 @
      [Chdir ''/srv/tests'' None, Serve 8082] @
      handle_requests ?env ''/srv/tests'' (connections ?env 8082) @ [Close 8082],
      Uncaught KeyboardInterrupt)"
    using C6_interrupt_unwinds_uncaught [OF a b c e,
        of "[8083, 8084, 8085, 8086, 8087, 8088, 8089]"]
    unfolding m [symmetric] installation_dir by simp
  show ?thesis
    unfolding t using a b c' e by simp
qed

theorem C6_exit_status_counterexample:
  "bind_listen (installation 8080 None) 8080 = None \<and>
   serve_ends (installation 8080 None) 8080 = Raises KeyboardInterrupt \<and>
   snd (main (installation 8080 None) ''/home/user'') = Uncaught KeyboardInterrupt \<and>
   exit_status (snd (main (installation 8080 None) ''/home/user'')) \<noteq> Some 0"
proof -
  let ?env = "installation 8080 None"
  have a: "\<forall>q \<in> set []. in_use ?env q"
    by simp
  have b: "bind_listen ?env 8080 = None"
    by (simp add: installation_def)
  have c: "os_chdir ?env (dirname (abspath (lib ?env) ''/home/user'' (script_file ?env))) = None"
    by (simp add: installation_def)
  have e: "serve_ends ?env 8080 = Raises KeyboardInterrupt"
    by (simp add: installation_def)
  have m: "main ?env ''/home/user'' =
      scan ?env ''/home/user'' ([] @ 8080 # [8081, 8082, 8083, 8084, 8085, 8086, 8087, 8088, 8089])"
    by (simp add: main_def range_8080)
  have "snd (main ?env ''/home/user'') = Uncaught KeyboardInterrupt"
    unfolding m scan_interrupted [OF a b c e] by simp
  then show ?thesis
    using b e by simp
qed


section \<open>The handler\<close>

lemma v1_update [simp]:
  "v1 (h\<lparr>stdout := a\<rparr>) = v1 h"
  "v1 (h\<lparr>headers_buffer := b\<rparr>) = v1 h"
  "v1 (h\<lparr>wfile := c\<rparr>) = v1 h"
  by (simp_all add: v1_def)

lemma percent_access:
  "percent (CHR 0x22 # ''%s'' @ CHR 0x22 # '' %s %s'') [Str a, Str b, Str c] =
     Inr (CHR 0x22 # a @ CHR 0x22 # '' '' @ b @ '' '' @ c)"
  by simp

lemma percent_error:
  "percent ''code %d, message %s'' [Num c, Str m] = Inr (''code '' @ str c @ '', message '' @ m)"
  by simp

lemma log_request_eq:
  "log_request code h = (h\<lparr>stdout := stdout h @ [access_line (req h) code]\<rparr>, None)"
  by (simp add: log_request_def log_message_def access_line_def)

lemma log_error_eq:
  "log_error ''code %d, message %s'' [Num c, Str m] h =
     (h\<lparr>stdout := stdout h @ [error_line (req h) c m]\<rparr>, None)"
  by (simp add: log_error_def log_message_def error_line_def)

text \<open>What the methods leave alone.\<close>

lemma send_header_keeps [simp]:
  "stdout (send_header k v h) = stdout h"
  "req (send_header k v h) = req h"
  "directory (send_header k v h) = directory h"
  "wfile (send_header k v h) = wfile h"
  by (simp_all add: send_header_def)

lemma send_response_only_keeps [simp]:
  "stdout (send_response_only l c m h) = stdout h"
  "req (send_response_only l c m h) = req h"
  "directory (send_response_only l c m h) = directory h"
  "wfile (send_response_only l c m h) = wfile h"
  by (simp_all add: send_response_only_def Let_def)

lemma end_headers_keeps [simp]:
  "stdout (end_headers h) = stdout h"
  "req (end_headers h) = req h"
  "directory (end_headers h) = directory h"
  by (simp_all add: end_headers_def Base_end_headers_def flush_headers_def)

lemma write_body_keeps [simp]:
  "stdout (write_body b h) = stdout h"
  "req (write_body b h) = req h"
  "directory (write_body b h) = directory h"
  by (simp_all add: write_body_def)

lemma v1_keeps [simp]:
  "v1 (send_header k v h) = v1 h"
  "v1 (send_response_only l c m h) = v1 h"
  "v1 (end_headers h) = v1 h"
  "v1 (write_body b h) = v1 h"
  by (simp_all add: v1_def)

lemma send_response_eq:
  "send_response l code m h =
     (send_header ''Date'' (date_time_string (req h))
        (send_header ''Server'' (version_string l)
           (send_response_only l code m (h\<lparr>stdout := stdout h @ [access_line (req h) code]\<rparr>))),
      None)"
  by (simp add: send_response_def log_request_eq then_do_def)

lemma send_error_keeps [simp]:
  "snd (send_error l code (Some m) h) = None"
  "stdout (fst (send_error l code (Some m) h)) =
     stdout h @ [error_line (req h) code m, access_line (req h) code]"
  "req (fst (send_error l code (Some m) h)) = req h"
  "directory (fst (send_error l code (Some m) h)) = directory h"
  by (simp_all add: send_error_def log_error_eq send_response_eq then_do_def Let_def
      split: option.splits prod.splits)


lemma send_error_pair:
  "send_error l code (Some m) h = (fst (send_error l code (Some m) h), None)"
  using send_error_keeps(1) [of l code m h] by (cases "send_error l code (Some m) h") simp

lemma send_head_keeps:
  "snd (fst (send_head l h)) = None"
  "req (fst (fst (send_head l h))) = req h"
  "directory (fst (fst (send_head l h))) = directory h"
  by (simp_all add: send_head_def list_directory_def Let_def then_do_def send_response_eq
      split: option.splits)

lemma send_head_stdout:
  "stdout (fst (fst (send_head l h))) \<in>
     (\<lambda>ls. stdout h @ ls) `
       {logged (req h) 200 None, logged (req h) 301 None, logged (req h) 304 None,
        logged (req h) 404 (Some ''File not found''),
        logged (req h) 404 (Some ''No permission to list directory'')}"
  by (simp add: send_head_def list_directory_def Let_def then_do_def send_response_eq
      split: option.splits)

lemma do_GET_eq:
  "do_GET l h =
     (case snd (send_head l h) of
        Some b \<Rightarrow> write_body b (fst (fst (send_head l h)))
      | None \<Rightarrow> fst (fst (send_head l h)), None)"
  using send_head_keeps(1) [of l h]
  by (cases "send_head l h") (auto simp: do_GET_def split: option.splits)

lemma do_HEAD_eq: "do_HEAD l h = (fst (fst (send_head l h)), None)"
  using send_head_keeps(1) [of l h]
  by (cases "send_head l h") (auto simp: do_HEAD_def)


lemma handle_one_request_stdout:
  "stdout (fst (handle_one_request l h)) \<in>
     (\<lambda>ls. stdout h @ ls) `
       {logged (req h) 200 None, logged (req h) 301 None, logged (req h) 304 None,
        logged (req h) 404 (Some ''File not found''),
        logged (req h) 404 (Some ''No permission to list directory''),
        logged (req h) 501 (Some (''Unsupported method ('' @ repr l (command (req h)) @ '')''))}"
  using send_head_stdout [of l h]
  by (auto simp: handle_one_request_def do_GET_eq do_HEAD_eq split: option.splits)










lemma is_cors_status [simp]: "\<not> is_cors_line (status_line c m)"
  by (simp add: is_cors_line_def status_line_def)

lemma is_cors_header [simp]: "hd k \<noteq> CHR ''A'' \<Longrightarrow> k \<noteq> [] \<Longrightarrow> \<not> is_cors_line (header k v)"
  by (cases k) (simp_all add: is_cors_line_def header_def)

lemma is_cors_crlf [simp]: "\<not> is_cors_line crlf"
  by (simp add: is_cors_line_def crlf_def)

lemma filter_cors_headers [simp]: "filter is_cors_line cors_headers = cors_headers"
  by (simp add: is_cors_line_def cors_headers_def)

lemma list_all_error_body [simp]: "list_all is_Body (error_body l rq code m)"
  by (simp add: error_body_def)

lemma filter_error_head [simp]: "filter is_cors_line (error_head l rq code m) = cors_headers"
  by (simp add: error_head_def)







section \<open>The responses to GET and HEAD\<close>






section \<open>The concrete installation\<close>













section \<open>Cross-origin headers and the access log\<close>






lemma printed_map_Print: "printed (map Print ls @ evs) = ls @ printed evs"
  by (induction ls) simp_all

lemma printed_handle_requests:
  "printed (handle_requests env cwd rqs) =
     concat (map (\<lambda>rq. stdout (fst (TestServerHandler env cwd rq))) rqs)"
  by (induction rqs) (simp_all add: printed_map_Print Let_def)

lemma handler_stdout:
  "stdout (fst (TestServerHandler env cwd rq)) \<in>
     {logged rq 200 None, logged rq 301 None, logged rq 304 None,
      logged rq 404 (Some ''File not found''),
      logged rq 404 (Some ''No permission to list directory''),
      logged rq 501 (Some (''Unsupported method ('' @ repr (lib env) (command rq) @ '')''))}"
  using handle_one_request_stdout [of "lib env"
      "\<lparr>directory = dirname (abspath (lib env) cwd (script_file env)),
        req = rq, headers_buffer = [], wfile = [], stdout = []\<rparr>"]
  unfolding TestServerHandler_def by simp








section \<open>The served root\<close>













lemma installation_script_dir: "script_dir (installation free r) cwd = ''/srv/tests''"
  by (simp add: script_dir_def installation_dir)





section \<open>The working directory\<close>











section \<open>Two busy ports\<close>

lemma not_busy_log_lines [simp]:
  "\<not> is_busy_line (access_line rq code)"
  "\<not> is_busy_line (error_line rq code m)"
  by (simp_all add: is_busy_line_def access_line_def error_line_def)

lemma no_busy_line_handler:
  "filter is_busy_line (stdout (fst (TestServerHandler env cwd rq))) = []"
  using handler_stdout [of env cwd rq] by auto

lemma tried_map_Print: "tried (map Print ls @ evs) = tried evs"
  by (induction ls) simp_all

lemma bound_ports_map_Print: "bound_ports (map Print ls @ evs) = bound_ports evs"
  by (induction ls) simp_all

lemma handle_requests_quiet:
  "filter is_busy_line (printed (handle_requests env cwd rqs)) = []"
  "tried (handle_requests env cwd rqs) = []"
  "bound_ports (handle_requests env cwd rqs) = []"
proof -
  show "filter is_busy_line (printed (handle_requests env cwd rqs)) = []"
    unfolding printed_handle_requests
    by (induction rqs) (simp_all add: no_busy_line_handler)
  show "tried (handle_requests env cwd rqs) = []"
    by (induction rqs) (simp_all add: tried_map_Print Let_def)
  show "bound_ports (handle_requests env cwd rqs) = []"
    by (induction rqs) (simp_all add: bound_ports_map_Print Let_def)
qed

lemma except_OSError_quiet:
  "tried (fst (except_OSError p e)) = []"
  "bound_ports (fst (except_OSError p e)) = []"
  by (cases e; simp add: except_OSError_def)+

lemma except_OSError_stops:
  "\<not> errno_98 e \<Longrightarrow> snd (except_OSError p e) \<noteq> Continue"
  "\<not> errno_98 e \<Longrightarrow> filter is_busy_line (printed (fst (except_OSError p e))) = []"
  by (cases e; simp add: except_OSError_def errno_98_def is_busy_line_def)+

lemma started_quiet:
  "tried (started p) = [p]"
  "bound_ports (started p) = [p]"
  "filter is_busy_line (printed (started p)) = []"
  by (simp_all add: started_def is_busy_line_def)

lemma attempt_chdir_failed:
  assumes "bind_listen env p = None"
    and "os_chdir env (dirname (abspath (lib env) cwd (script_file env))) = Some e"
  shows "attempt env cwd p =
    (started p @ [Chdir (dirname (abspath (lib env) cwd (script_file env))) (Some e), Close p] @
     fst (except_OSError p e), snd (except_OSError p e))"
  using assms by (simp add: attempt_def started_def Let_def split: prod.splits)


lemma attempt_free_totals:
  assumes "bind_listen env p = None"
    and "\<forall>e. os_chdir env (script_dir env cwd) = Some e \<longrightarrow> \<not> errno_98 e"
    and "\<forall>e. serve_ends env p = Raises e \<longrightarrow> \<not> errno_98 e"
  shows "snd (attempt env cwd p) \<noteq> Continue \<and>
         tried (fst (attempt env cwd p)) = [p] \<and>
         bound_ports (fst (attempt env cwd p)) = [p] \<and>
         filter is_busy_line (printed (fst (attempt env cwd p))) = []"
proof (cases "os_chdir env (dirname (abspath (lib env) cwd (script_file env)))")
  case None
  show ?thesis
  proof (cases "serve_ends env p")
    case (Raises e)
    then have "\<not> errno_98 e"
      using assms(3) by simp
    then show ?thesis
      unfolding attempt_served [OF assms(1) None] Raises
      by (simp add: printed_append tried_append bound_ports_append started_quiet
          handle_requests_quiet except_OSError_quiet except_OSError_stops)
  next
    case Returns
    show ?thesis
      unfolding attempt_served [OF assms(1) None] Returns
      by (simp add: printed_append tried_append bound_ports_append started_quiet
          handle_requests_quiet)
  next
    case Never
    show ?thesis
      unfolding attempt_served [OF assms(1) None] Never
      by (simp add: printed_append tried_append bound_ports_append started_quiet
          handle_requests_quiet)
  qed
next
  case (Some e)
  then have "\<not> errno_98 e"
    using assms(2) by (simp add: script_dir_def)
  then show ?thesis
    unfolding attempt_chdir_failed [OF assms(1) Some]
    by (simp add: printed_append tried_append bound_ports_append started_quiet
        except_OSError_quiet except_OSError_stops)
qed


lemma busy_quiet:
  "tried (busy env p) = [p]"
  "in_use env p \<Longrightarrow> bound_ports (busy env p) = []"
  "filter is_busy_line (printed (busy env p)) =
     [''Port '' @ str p @ '' is busy, trying '' @ str (p + 1)]"
  by (auto simp: busy_def is_busy_line_def in_use_iff)

text \<open>
  Claim C3. When the ports \<open>P\<close> and \<open>P + 1\<close> are in use and \<open>P + 2\<close> is free, the scan
  calls the constructor for \<open>P\<close>, prints that \<open>P\<close> is busy, calls it for \<open>P + 1\<close>, prints
  that \<open>P + 1\<close> is busy, and calls it for \<open>P + 2\<close>, where it succeeds and the banner for
  \<open>P + 2\<close> follows; between these events there is no other (the script has no delay or
  backoff). Unless \<^verbatim>\<open>os.chdir\<close> or \<^verbatim>\<open>serve_forever\<close> then raises an \<^verbatim>\<open>OSError\<close> with errno 98
  of its own, which the same \<^verbatim>\<open>except\<close> clause would take for one more busy port, these
  three are all the ports tried, \<open>P + 2\<close> is the only port bound, and the two lines are
  all the lines about a busy port on the standard output. \<^verbatim>\<open>main\<close> is the scan for
  \<open>P = 8080\<close>.
\<close>

theorem C3_two_busy_ports_then_free:
  assumes "in_use env P"
    and "in_use env (P + 1)"
    and "bind_listen env (P + 2) = None"
  shows "take 9 (fst (scan env cwd (py_range P (P + 10)))) =
           [Bind P (bind_listen env P),
            Print (''Port '' @ str P @ '' is busy, trying '' @ str (P + 1)),
            Bind (P + 1) (bind_listen env (P + 1)),
            Print (''Port '' @ str (P + 1) @ '' is busy, trying '' @ str (P + 2)),
            Bind (P + 2) None,
            Print (''Starting test server at http://localhost:'' @ str (P + 2) @ ''/''),
            Print (''Test page available at: http://localhost:'' @ str (P + 2)
                   @ ''/test-elements.html''),
            Print ''Press Ctrl+C to stop the server'',
            Chdir (script_dir env cwd) (os_chdir env (script_dir env cwd))] \<and>
         ((\<forall>e. os_chdir env (script_dir env cwd) = Some e \<longrightarrow> \<not> errno_98 e) \<and>
          (\<forall>e. serve_ends env (P + 2) = Raises e \<longrightarrow> \<not> errno_98 e) \<longrightarrow>
            tried (fst (scan env cwd (py_range P (P + 10)))) = [P, P + 1, P + 2] \<and>
            bound_ports (fst (scan env cwd (py_range P (P + 10)))) = [P + 2] \<and>
            filter is_busy_line (printed (fst (scan env cwd (py_range P (P + 10))))) =
              [''Port '' @ str P @ '' is busy, trying '' @ str (P + 1),
               ''Port '' @ str (P + 1) @ '' is busy, trying '' @ str (P + 2)])"
proof -
  let ?d = "script_dir env cwd"
  let ?rest = "[P + 3, P + 4, P + 5, P + 6, P + 7, P + 8, P + 9]"
  have r: "py_range P (P + 10) = [P, P + 1] @ (P + 2) # ?rest"
    by (simp add: py_range_10)
  have a: "\<forall>q \<in> set [P, P + 1]. in_use env q"
    using assms(1,2) by simp
  have k: "scan env cwd (py_range P (P + 10)) =
      (concat (map (busy env) [P, P + 1]) @ fst (scan env cwd ((P + 2) # ?rest)),
       snd (scan env cwd ((P + 2) # ?rest)))"
    unfolding r by (rule scan_skips [OF a])
  have two: "P + 1 + 1 = P + 2"
    by simp
  obtain more where m:
    "fst (scan env cwd ((P + 2) # ?rest)) = fst (attempt env cwd (P + 2)) @ more"
    using scan_Cons_events by blast
  obtain rest' where f: "fst (attempt env cwd (P + 2)) =
      started (P + 2) @ Chdir ?d (os_chdir env ?d) # rest'"
    using attempt_free [OF assms(3), of cwd] by (auto simp: script_dir_def)
  have 1: "take 9 (fst (scan env cwd (py_range P (P + 10)))) =
           [Bind P (bind_listen env P),
            Print (''Port '' @ str P @ '' is busy, trying '' @ str (P + 1)),
            Bind (P + 1) (bind_listen env (P + 1)),
            Print (''Port '' @ str (P + 1) @ '' is busy, trying '' @ str (P + 2)),
            Bind (P + 2) None,
            Print (''Starting test server at http://localhost:'' @ str (P + 2) @ ''/''),
            Print (''Test page available at: http://localhost:'' @ str (P + 2)
                   @ ''/test-elements.html''),
            Print ''Press Ctrl+C to stop the server'',
            Chdir ?d (os_chdir env ?d)]"
    unfolding k m f by (simp add: busy_def started_def two)
  have 2: "tried (fst (scan env cwd (py_range P (P + 10)))) = [P, P + 1, P + 2] \<and>
        bound_ports (fst (scan env cwd (py_range P (P + 10)))) = [P + 2] \<and>
        filter is_busy_line (printed (fst (scan env cwd (py_range P (P + 10))))) =
          [''Port '' @ str P @ '' is busy, trying '' @ str (P + 1),
           ''Port '' @ str (P + 1) @ '' is busy, trying '' @ str (P + 2)]"
    if c: "\<forall>e. os_chdir env ?d = Some e \<longrightarrow> \<not> errno_98 e"
      and s: "\<forall>e. serve_ends env (P + 2) = Raises e \<longrightarrow> \<not> errno_98 e"
  proof -
    note t = attempt_free_totals [OF assms(3) c s]
    have e: "fst (scan env cwd ((P + 2) # ?rest)) = fst (attempt env cwd (P + 2))"
      using t by (intro scan_Cons_stops) simp
    show ?thesis
      unfolding k e using t assms(1,2)
      by (simp add: tried_append bound_ports_append printed_append busy_quiet two)
  qed
  show ?thesis
    using 1 2 by blast
qed


theorem C3_witness:
  "in_use (installation 8082 None) 8080 \<and> in_use (installation 8082 None) 8081 \<and>
   bind_listen (installation 8082 None) 8082 = None \<and>
   os_chdir (installation 8082 None) ''/srv/tests'' = None \<and>
   serve_ends (installation 8082 None) 8082 = Raises KeyboardInterrupt \<and>
   \<not> errno_98 KeyboardInterrupt \<and>
   take 9 (fst (main (installation 8082 None) ''/home/user'')) =
     [Bind 8080 (Some (OSError (Some 98) ''[Errno 98] Address already in use'')),
      Print ''Port 8080 is busy, trying 8081'',
      Bind 8081 (Some (OSError (Some 98) ''[Errno 98] Address already in use'')),
      Print ''Port 8081 is busy, trying 8082'',
      Bind 8082 None,
      Print ''Starting test server at http://localhost:8082/'',
      Print ''Test page available at: http://localhost:8082/test-elements.html'',
      Print ''Press Ctrl+C to stop the server'',
      Chdir ''/srv/tests'' None] \<and>
   tried (fst (main (installation 8082 None) ''/home/user'')) = [8080, 8081, 8082] \<and>
   bound_ports (fst (main (installation 8082 None) ''/home/user'')) = [8082] \<and>
   filter is_busy_line (printed (fst (main (installation 8082 None) ''/home/user''))) =
     [''Port 8080 is busy, trying 8081'', ''Port 8081 is busy, trying 8082'']"
proof -
  let ?env = "installation 8082 None"
  have u: "in_use ?env 8080" "in_use ?env (8080 + 1)"
    by (simp_all add: in_use_def errno_98_def installation_def)
  have b: "bind_listen ?env (8080 + 2) = None"
    by (simp add: installation_def)
  have c: "os_chdir ?env ''/srv/tests'' = None"
    by (simp add: installation_def)
  have s: "serve_ends ?env 8082 = Raises KeyboardInterrupt"
    by (simp add: installation_def)
  have k: "\<not> errno_98 KeyboardInterrupt"
    by (simp add: errno_98_def)
  have m: "main ?env ''/home/user'' = scan ?env ''/home/user'' (py_range 8080 (8080 + 10))"
    by (simp add: main_def PORT_def)
  have bl: "bind_listen ?env 8080 = Some (OSError (Some 98) ''[Errno 98] Address already in use'')"
    "bind_listen ?env 8081 = Some (OSError (Some 98) ''[Errno 98] Address already in use'')"
    by (simp_all add: installation_def)
  note t = C3_two_busy_ports_then_free [OF u b, of "''/home/user''"]
  have h: "(\<forall>e. os_chdir ?env (script_dir ?env ''/home/user'') = Some e \<longrightarrow> \<not> errno_98 e) \<and>
           (\<forall>e. serve_ends ?env (8080 + 2) = Raises e \<longrightarrow> \<not> errno_98 e)"
    using c s k by (simp add: installation_script_dir)
  have 1: "take 9 (fst (main ?env ''/home/user'')) =
     [Bind 8080 (Some (OSError (Some 98) ''[Errno 98] Address already in use'')),
      Print ''Port 8080 is busy, trying 8081'',
      Bind 8081 (Some (OSError (Some 98) ''[Errno 98] Address already in use'')),
      Print ''Port 8081 is busy, trying 8082'',
      Bind 8082 None,
      Print ''Starting test server at http://localhost:8082/'',
      Print ''Test page available at: http://localhost:8082/test-elements.html'',
      Print ''Press Ctrl+C to stop the server'',
      Chdir ''/srv/tests'' None]"
    unfolding m using conjunct1 [OF t]
    by (simp add: bl c installation_script_dir str_8080 str_8081 str_8082)
  have 2: "tried (fst (main ?env ''/home/user'')) = [8080, 8081, 8082] \<and>
     bound_ports (fst (main ?env ''/home/user'')) = [8082] \<and>
     filter is_busy_line (printed (fst (main ?env ''/home/user''))) =
       [''Port 8080 is busy, trying 8081'', ''Port 8081 is busy, trying 8082'']"
    unfolding m using mp [OF conjunct2 [OF t] h]
    by (simp add: str_8080 str_8081 str_8082)
  show ?thesis
    using u b c s k 1 2 by simp
qed

end
